theory Spec2Isabelle
  imports Main "HOL-Library.Word"
begin

section \<open>The ELF parser of LIEF: \<open>src/ELF/Parser.cpp\<close>\<close>

text \<open>
  The theory embeds the member functions of \<open>LIEF::ELF::Parser\<close> that are defined in
  \<open>Parser.cpp\<close>. Exceptions are values of a sum type, the members of the parser and of
  the binary under construction are record fields, loops are recursive functions, and
  the fixed-width integers of the source are machine words.
\<close>

subsection \<open>Integers, errors, bytes\<close>

type_synonym u8 = "8 word"
type_synonym u16 = "16 word"
type_synonym u32 = "32 word"
type_synonym u64 = "64 word"

text \<open>
  The exceptions. \<open>bad_format\<close>, \<open>corrupted\<close> and \<open>conversion_error\<close> are thrown in
  \<open>Parser.cpp\<close> itself (the specification calls them FormatMismatch, CorruptedHeader and
  ConversionError). \<open>OutOfBounds\<close> and \<open>UnmappedAddress\<close> are the failures that the
  specification gives to the byte source and to the address translation.
\<close>

datatype error = bad_format | corrupted | conversion_error | OutOfBounds | UnmappedAddress

text \<open>
  Modelled from the spec: \<open>VectorStream::read\<close> (the ByteSource of section 4.1) is not
  defined in \<open>Parser.cpp\<close>. \<open>read(offset, length)\<close> is a view of the bytes
  \<open>[offset, offset + length)\<close> of the buffer, and fails with OutOfBounds when
  \<open>offset + length\<close> exceeds the size of the buffer.
\<close>

definition read :: "u8 list \<Rightarrow> u64 \<Rightarrow> u64 \<Rightarrow> error + u8 list" where
  "read content offset sz =
     (if unat offset + unat sz \<le> length content
      then Inr (take (unat sz) (drop (unat offset) content))
      else Inl OutOfBounds)"

text \<open>
  The source reinterprets the bytes of a view as integers of the host, which is
  little-endian: the first byte is the least significant one.
\<close>

fun le_bytes :: "u8 list \<Rightarrow> nat" where
  "le_bytes [] = 0"
| "le_bytes (b # bs) = unat b + 256 * le_bytes bs"

definition le16 :: "u8 list \<Rightarrow> nat \<Rightarrow> u16" where
  "le16 bs i = of_nat (le_bytes (take 2 (drop i bs)))"

definition le32 :: "u8 list \<Rightarrow> nat \<Rightarrow> u32" where
  "le32 bs i = of_nat (le_bytes (take 4 (drop i bs)))"

definition le64 :: "u8 list \<Rightarrow> nat \<Rightarrow> u64" where
  "le64 bs i = of_nat (le_bytes (take 8 (drop i bs)))"

subsection \<open>Constants of the ELF format\<close>

text \<open>
  The enumerations and the layout of the ELF structures are declared in headers of the
  repository, not in \<open>Parser.cpp\<close>; the values below are those of the ELF format.
\<close>

definition ELFCLASSNONE :: u32 where "ELFCLASSNONE = 0"
definition ELFCLASS32 :: u32 where "ELFCLASS32 = 1"
definition ELFCLASS64 :: u32 where "ELFCLASS64 = 2"

definition EI_CLASS :: nat where "EI_CLASS = 4"

definition PT_LOAD :: u64 where "PT_LOAD = 1"
definition PT_DYNAMIC :: u64 where "PT_DYNAMIC = 2"

definition SHT_STRTAB :: u64 where "SHT_STRTAB = 3"

definition DT_STRTAB :: u64 where "DT_STRTAB = 5"

definition sizeof_Elf32_Ehdr :: u64 where "sizeof_Elf32_Ehdr = 52"
definition sizeof_Elf32_Dyn :: u64 where "sizeof_Elf32_Dyn = 8"
definition sizeof_Elf64_Dyn :: u64 where "sizeof_Elf64_Dyn = 16"
definition sizeof_uint16_t :: u64 where "sizeof_uint16_t = 2"

text \<open>
  An entry of the dynamic array as the scan sees it: \<open>d_tag\<close> after
  \<open>static_cast<DYNAMIC_TAGS>\<close> and \<open>d_un.d_val\<close> after its conversion to the
  \<open>uint64_t\<close> parameter of \<open>virtual_address_to_offset\<close>.
\<close>

record Dyn =
  d_tag :: u64
  d_val :: u64

text \<open>\<open>Elf32_Dyn\<close>: a signed 32-bit tag, then a 32-bit value.\<close>

definition Elf32_Dyn_at :: "u8 list \<Rightarrow> nat \<Rightarrow> Dyn" where
  "Elf32_Dyn_at entries i =
     \<lparr>d_tag = scast (le32 entries (8 * i)), d_val = ucast (le32 entries (8 * i + 4))\<rparr>"

text \<open>\<open>Elf64_Dyn\<close>: a signed 64-bit tag, then a 64-bit value.\<close>

definition Elf64_Dyn_at :: "u8 list \<Rightarrow> nat \<Rightarrow> Dyn" where
  "Elf64_Dyn_at entries i =
     \<lparr>d_tag = le64 entries (16 * i), d_val = le64 entries (16 * i + 8)\<rparr>"

subsection \<open>The binary under construction\<close>

text \<open>
  An address is a natural number and \<open>0\<close> is \<open>nullptr\<close>. An object store is the list of
  the objects allocated so far: the object at address \<open>a\<close> is element \<open>a - 1\<close>, and
  \<open>new\<close> appends. Dereferencing an address that holds no object has no defined behaviour
  in the source; \<open>deref\<close> returns \<open>None\<close> there.
\<close>

type_synonym addr = nat

definition deref :: "'a list \<Rightarrow> addr \<Rightarrow> 'a option" where
  "deref h a = (if 0 < a \<and> a \<le> length h then Some (h ! (a - 1)) else None)"

definition store :: "'a list \<Rightarrow> addr \<Rightarrow> 'a \<Rightarrow> 'a list" where
  "store h a x = h[a - 1 := x]"

definition new :: "'a list \<Rightarrow> 'a \<Rightarrow> addr \<times> 'a list" where
  "new h x = (Suc (length h), h @ [x])"

record Segment =
  segment_type :: u64
  segment_file_offset :: u64
  physical_size :: u64
  virtual_address :: u64
  virtual_size :: u64

record Section =
  section_name :: string
  section_type :: u64
  section_file_offset :: u64

record Symbol =
  symbol_name :: string
  symbol_version :: addr

record SymbolVersion =
  version_value :: u16

text \<open>
  A member \<open>m_\<close> of the source is the field \<open>m\<close> (\<open>type_\<close> of the parser is
  \<open>parser_type\<close>, \<open>type_\<close> and \<open>name_\<close> of the binary are \<open>binary_type\<close> and
  \<open>binary_name\<close>). \<open>segments\<close> and \<open>sections\<close> are vectors of pointers that \<open>Parser.cpp\<close> only reads,
  testing each pointer against \<open>nullptr\<close>: an element is \<open>None\<close> for \<open>nullptr\<close> and the
  object otherwise. The symbols are written through their pointers, and the symbol
  versions are referred to by address, so \<open>dynamic_symbols\<close> and
  \<open>symbol_version_table\<close> are vectors of addresses into the stores \<open>symbol_objects\<close> and
  \<open>version_objects\<close> of the objects that the binary owns.
\<close>

record Binary =
  binary_type :: u32
  original_size :: u64
  binary_name :: string
  datahandler :: "u8 list"
  segments :: "Segment option list"
  sections :: "Section option list"
  dynamic_symbols :: "addr list"
  symbol_version_table :: "addr list"
  symbol_objects :: "Symbol list"
  version_objects :: "SymbolVersion list"

text \<open>
  The option that the constructors store in \<open>count_mtd_\<close>; \<open>Parser.cpp\<close> passes it on
  and never inspects it.
\<close>

datatype DYNSYM_COUNT_METHODS = COUNT_AUTO | COUNT_SECTION | COUNT_HASH | COUNT_RELOCATIONS

text \<open>
  The members of the parser once \<open>init\<close> has allocated the binary. \<open>stream\<close> is the
  content of the \<open>VectorStream\<close>.
\<close>

record Parser =
  stream :: "u8 list"
  binary_size :: u64
  binary :: Binary
  parser_type :: u32
  count_mtd :: DYNSYM_COUNT_METHODS

text \<open>
  \<open>std::find_if\<close> over a vector of pointers, with a predicate of the form
  \<open>p != nullptr and P(p)\<close>: the first element that is an object satisfying \<open>P\<close>.
\<close>

fun find_if :: "('a \<Rightarrow> bool) \<Rightarrow> 'a option list \<Rightarrow> 'a option" where
  "find_if P [] = None"
| "find_if P (None # xs) = find_if P xs"
| "find_if P (Some x # xs) = (if P x then Some x else find_if P xs)"

subsection \<open>Address translation\<close>

text \<open>
  Modelled from the spec: \<open>Binary::virtual_address_to_offset\<close> (the AddressTranslator of
  section 4.3) is not defined in \<open>Parser.cpp\<close>. It scans the segments for the loadable
  one whose range \<open>[virtual_address, virtual_address + memory size)\<close> contains the
  address and returns \<open>file_offset + (va - virtual_address)\<close>; it fails with
  UnmappedAddress when no segment contains the address. The functions of the parser
  below take the translation as a parameter \<open>vato\<close>; this definition instantiates it.
\<close>

definition covers :: "u64 \<Rightarrow> Segment \<Rightarrow> bool" where
  "covers va segment \<longleftrightarrow>
     segment_type segment = PT_LOAD \<and>
     unat (virtual_address segment) \<le> unat va \<and>
     unat va < unat (virtual_address segment) + unat (virtual_size segment)"

definition virtual_address_to_offset :: "Binary \<Rightarrow> u64 \<Rightarrow> error + u64" where
  "virtual_address_to_offset b va =
     (case find_if (covers va) (segments b) of
        None \<Rightarrow> Inl UnmappedAddress
      | Some segment \<Rightarrow> Inr (segment_file_offset segment + (va - virtual_address segment)))"

subsection \<open>Locating the dynamic string table\<close>

text \<open>
  The loop over the dynamic array in \<open>get_dynamic_string_table_from_segments\<close>: every
  entry whose tag is \<open>DT_STRTAB\<close> assigns the translation of its value to \<open>va_offset\<close>,
  and an exception of the translation leaves the loop.
\<close>

fun scan_entries :: "(u64 \<Rightarrow> error + u64) \<Rightarrow> Dyn list \<Rightarrow> u64 \<Rightarrow> error + u64" where
  "scan_entries translate [] va_offset = Inr va_offset"
| "scan_entries translate (entry # entries) va_offset =
     (if d_tag entry = DT_STRTAB
      then (case translate (d_val entry) of
              Inl e \<Rightarrow> Inl e
            | Inr v \<Rightarrow> scan_entries translate entries v)
      else scan_entries translate entries va_offset)"

definition get_dynamic_string_table_from_segments ::
    "(Binary \<Rightarrow> u64 \<Rightarrow> error + u64) \<Rightarrow> Parser \<Rightarrow> error + u64" where
  "get_dynamic_string_table_from_segments vato p =
     (case
        (case find_if (\<lambda>segment. segment_type segment = PT_DYNAMIC) (segments (binary p)) of
           None \<Rightarrow> Inr 0
         | Some segment_dynamic \<Rightarrow>
             (let offset = segment_file_offset segment_dynamic;
                  sz = physical_size segment_dynamic
              in if parser_type p = ELFCLASS32
                 then (let nb_entries = sz div sizeof_Elf32_Dyn
                       in case read (stream p) offset sz of
                            Inl e \<Rightarrow> Inl e
                          | Inr entries \<Rightarrow>
                              scan_entries (vato (binary p))
                                (map (Elf32_Dyn_at entries) [0..<unat nb_entries]) 0)
                 else (case read (stream p) offset sz of
                         Inl e \<Rightarrow> Inl e
                       | Inr entries \<Rightarrow>
                           (let nb_entries = sz div sizeof_Elf64_Dyn
                            in scan_entries (vato (binary p))
                                 (map (Elf64_Dyn_at entries) [0..<unat nb_entries]) 0))))
      of
        Inl e \<Rightarrow> Inl e
      | Inr va_offset \<Rightarrow> if va_offset > 0 then Inr va_offset else Inl conversion_error)"

definition get_dynamic_string_table_from_sections :: "Parser \<Rightarrow> error + u64" where
  "get_dynamic_string_table_from_sections p =
     (let va_offset =
            (case find_if (\<lambda>section. section_name section = ''.dynstr'' \<and>
                                      section_type section = SHT_STRTAB)
                          (sections (binary p)) of
               None \<Rightarrow> 0
             | Some dynamic_string_section \<Rightarrow> section_file_offset dynamic_string_section)
      in if va_offset > 0 then Inr va_offset else Inl conversion_error)"

text \<open>The handler of \<open>get_dynamic_string_table\<close> catches \<open>conversion_error\<close> and nothing else.\<close>

definition get_dynamic_string_table ::
    "(Binary \<Rightarrow> u64 \<Rightarrow> error + u64) \<Rightarrow> Parser \<Rightarrow> error + u64" where
  "get_dynamic_string_table vato p =
     (case get_dynamic_string_table_from_segments vato p of
        Inr offset \<Rightarrow> Inr offset
      | Inl e \<Rightarrow>
          if e = conversion_error then get_dynamic_string_table_from_sections p
          else Inl e)"

subsection \<open>Symbol versions\<close>

text \<open>\<open>symbol_version_table_.push_back(new SymbolVersion{v})\<close>.\<close>

definition push_back_version :: "u16 \<Rightarrow> Binary \<Rightarrow> Binary" where
  "push_back_version v b =
     (case new (version_objects b) \<lparr>version_value = v\<rparr> of
        (a, h) \<Rightarrow> b\<lparr>version_objects := h, symbol_version_table := symbol_version_table b @ [a]\<rparr>)"

text \<open>
  The number of dynamic symbols is cast to \<open>uint32_t\<close>; the product with
  \<open>sizeof(uint16_t)\<close> is taken in 64 bits. \<open>array[i]\<close> is the 16-bit integer at the bytes
  \<open>2 * i\<close> and \<open>2 * i + 1\<close> of the view.
\<close>

definition parse_symbol_version :: "u64 \<Rightarrow> Parser \<Rightarrow> error + Parser" where
  "parse_symbol_version symbol_version_offset p =
     (let nb_entries = (of_nat (length (dynamic_symbols (binary p))) :: u32)
      in case read (stream p) symbol_version_offset (ucast nb_entries * sizeof_uint16_t) of
           Inl e \<Rightarrow> Inl e
         | Inr array \<Rightarrow>
             Inr (p\<lparr>binary :=
                    fold (\<lambda>i. push_back_version (le16 array (2 * i))) [0..<unat nb_entries]
                      (binary p)\<rparr>))"

text \<open>
  The body of the loop of \<open>link_symbol_version\<close>,
  \<open>dynamic_symbols_[i]->symbol_version_ = symbol_version_table_[i]\<close>: a write through the
  pointer \<open>dynamic_symbols_[i]\<close>. The result is \<open>None\<close> when the pointer addresses no
  symbol, where the source has no defined behaviour.
\<close>

definition link_step :: "addr \<Rightarrow> addr \<Rightarrow> Symbol list \<Rightarrow> Symbol list option" where
  "link_step symbol version h =
     (case deref h symbol of
        None \<Rightarrow> None
      | Some s \<Rightarrow> Some (store h symbol (s\<lparr>symbol_version := version\<rparr>)))"

fun link_loop :: "Binary \<Rightarrow> nat list \<Rightarrow> Symbol list \<Rightarrow> Symbol list option" where
  "link_loop b [] h = Some h"
| "link_loop b (i # is) h =
     (case link_step (dynamic_symbols b ! i) (symbol_version_table b ! i) h of
        None \<Rightarrow> None
      | Some h' \<Rightarrow> link_loop b is h')"

definition link_symbol_version :: "Parser \<Rightarrow> Parser option" where
  "link_symbol_version p =
     (if length (dynamic_symbols (binary p)) = length (symbol_version_table (binary p))
      then (case link_loop (binary p) [0..<length (dynamic_symbols (binary p))]
                   (symbol_objects (binary p)) of
              None \<Rightarrow> None
            | Some h \<Rightarrow> Some (p\<lparr>binary := (binary p)\<lparr>symbol_objects := h\<rparr>\<rparr>))
      else Some p)"

subsection \<open>Construction and class dispatch\<close>

text \<open>
  What the constructors and \<open>init\<close> call and \<open>Parser.cpp\<close> does not define is a
  parameter: the test \<open>is_elf\<close>; the constructor \<open>LIEF::Parser{file}\<close> of the base class,
  which either throws or leaves a value in \<open>binary_size_\<close>; the value that the default
  constructor of the base class leaves in \<open>binary_size_\<close>; the \<open>VectorStream\<close> of a file;
  \<open>filesystem::path(file).filename()\<close>; the default-constructed \<open>Binary{}\<close>; and the two
  instances of \<open>parse_binary\<close>, the extraction routines of \<open>Parser.tcc\<close>.
\<close>

record collaborators =
  is_elf :: "string \<Rightarrow> bool"
  base_Parser :: "string \<Rightarrow> error + u64"
  default_binary_size :: u64
  VectorStream_file :: "string \<Rightarrow> error + u8 list"
  filename :: "string \<Rightarrow> string"
  new_Binary :: Binary
  parse_binary32 :: "Parser \<Rightarrow> error + Parser"
  parse_binary64 :: "Parser \<Rightarrow> error + Parser"

text \<open>
  \<open>init\<close>, applied to the members that the constructor has set. The result is the
  number of \<open>Binary\<close> objects allocated and either the exception that leaves \<open>init\<close> or
  the parser. \<open>init\<close> allocates the binary in its first statement, so the number is 1.
\<close>

definition init ::
    "collaborators \<Rightarrow> string \<Rightarrow> u8 list \<Rightarrow> u64 \<Rightarrow> DYNSYM_COUNT_METHODS \<Rightarrow> nat \<times> (error + Parser)" where
  "init c name content size0 mtd =
     (let b = (new_Binary c)\<lparr>original_size := size0, binary_name := name, datahandler := content\<rparr>
      in (1,
          case read content 0 sizeof_Elf32_Ehdr of
            Inl e \<Rightarrow> Inl e
          | Inr header \<Rightarrow>
              (let t = (ucast (header ! EI_CLASS) :: u32);
                   p = \<lparr>stream = content, binary_size = size0, binary = b\<lparr>binary_type := t\<rparr>,
                        parser_type = t, count_mtd = mtd\<rparr>
               in if binary_type (binary p) = ELFCLASS32 then parse_binary32 c p
                  else if binary_type (binary p) = ELFCLASS64 then parse_binary64 c p
                  else Inl corrupted)))"

text \<open>The constructor from a byte buffer: the base class is default-constructed.\<close>

definition Parser_data ::
    "collaborators \<Rightarrow> u8 list \<Rightarrow> string \<Rightarrow> DYNSYM_COUNT_METHODS \<Rightarrow> nat \<times> (error + Parser)" where
  "Parser_data c data name mtd = init c name data (default_binary_size c) mtd"

text \<open>The constructor from a path.\<close>

definition Parser_file ::
    "collaborators \<Rightarrow> string \<Rightarrow> DYNSYM_COUNT_METHODS \<Rightarrow> nat \<times> (error + Parser)" where
  "Parser_file c file mtd =
     (case base_Parser c file of
        Inl e \<Rightarrow> (0, Inl e)
      | Inr size0 \<Rightarrow>
          if \<not> is_elf c file then (0, Inl bad_format)
          else (case VectorStream_file c file of
                  Inl e \<Rightarrow> (0, Inl e)
                | Inr content \<Rightarrow> init c (filename c file) content size0 mtd))"

text \<open>The two overloads of \<open>parse\<close> return \<open>parser.binary_\<close>.\<close>

definition parse_file :: "collaborators \<Rightarrow> string \<Rightarrow> DYNSYM_COUNT_METHODS \<Rightarrow> error + Binary" where
  "parse_file c file mtd =
     (case snd (Parser_file c file mtd) of Inl e \<Rightarrow> Inl e | Inr parser \<Rightarrow> Inr (binary parser))"

definition parse_data ::
    "collaborators \<Rightarrow> u8 list \<Rightarrow> string \<Rightarrow> DYNSYM_COUNT_METHODS \<Rightarrow> error + Binary" where
  "parse_data c data name mtd =
     (case snd (Parser_data c data name mtd) of Inl e \<Rightarrow> Inl e | Inr parser \<Rightarrow> Inr (binary parser))"

subsection \<open>Notions used in the statements\<close>

definition is_strtab :: "Dyn \<Rightarrow> bool" where
  "is_strtab entry \<longleftrightarrow> d_tag entry = DT_STRTAB"

text \<open>The translations of a list of addresses, in order, up to the first that fails.\<close>

fun translate_all :: "(u64 \<Rightarrow> error + u64) \<Rightarrow> u64 list \<Rightarrow> error + u64 list" where
  "translate_all translate [] = Inr []"
| "translate_all translate (va # vas) =
     (case translate va of
        Inl e \<Rightarrow> Inl e
      | Inr v \<Rightarrow> (case translate_all translate vas of Inl e \<Rightarrow> Inl e | Inr vs \<Rightarrow> Inr (v # vs)))"

text \<open>The first segment of type \<open>PT_DYNAMIC\<close>.\<close>

definition dynamic_segment :: "Parser \<Rightarrow> Segment option" where
  "dynamic_segment p =
     find_if (\<lambda>segment. segment_type segment = PT_DYNAMIC) (segments (binary p))"

text \<open>The dynamic array of a segment, decoded with the entry width of the class.\<close>

definition dynamic_array :: "Parser \<Rightarrow> Segment \<Rightarrow> error + Dyn list" where
  "dynamic_array p segment =
     (case read (stream p) (segment_file_offset segment) (physical_size segment) of
        Inl e \<Rightarrow> Inl e
      | Inr entries \<Rightarrow>
          Inr (if parser_type p = ELFCLASS32
               then map (Elf32_Dyn_at entries)
                      [0..<unat (physical_size segment div sizeof_Elf32_Dyn)]
               else map (Elf64_Dyn_at entries)
                      [0..<unat (physical_size segment div sizeof_Elf64_Dyn)]))"

text \<open>The first section named \<open>.dynstr\<close> of type \<open>SHT_STRTAB\<close>.\<close>

definition dynstr_section :: "Parser \<Rightarrow> Section option" where
  "dynstr_section p =
     find_if (\<lambda>section. section_name section = ''.dynstr'' \<and> section_type section = SHT_STRTAB)
       (sections (binary p))"

text \<open>An address that holds an object of the store.\<close>

definition valid :: "'a list \<Rightarrow> addr \<Rightarrow> bool" where
  "valid h a \<longleftrightarrow> 0 < a \<and> a \<le> length h"

text \<open>
  The number of entries that \<open>parse_symbol_version\<close> reads: the length of
  \<open>dynamic_symbols_\<close> as a 32-bit integer.
\<close>

definition nb_versions :: "Parser \<Rightarrow> nat" where
  "nb_versions p = length (dynamic_symbols (binary p)) mod 2 ^ 32"

text \<open>
  The parser that \<open>init\<close> hands to the extraction routine: the members set by the
  constructor, the binary with its size, name and content recorded, and the class tag
  of the header in \<open>type_\<close> of the parser and of the binary.
\<close>

definition initial_parser ::
    "collaborators \<Rightarrow> string \<Rightarrow> u8 list \<Rightarrow> u64 \<Rightarrow> DYNSYM_COUNT_METHODS \<Rightarrow> Parser" where
  "initial_parser c name content size0 mtd =
     \<lparr>stream = content, binary_size = size0,
      binary = (new_Binary c)
        \<lparr>original_size := size0, binary_name := name, datahandler := content,
         binary_type := ucast (content ! EI_CLASS)\<rparr>,
      parser_type = ucast (content ! EI_CLASS), count_mtd = mtd\<rparr>"

subsection \<open>Example inputs\<close>

definition empty_binary :: Binary where
  "empty_binary =
     \<lparr>binary_type = 0, original_size = 0, binary_name = [], datahandler = [], segments = [],
      sections = [], dynamic_symbols = [], symbol_version_table = [], symbol_objects = [],
      version_objects = []\<rparr>"

text \<open>A loadable segment that maps the addresses \<open>[0, 0x1000)\<close> to the file offsets from \<open>0x100\<close>.\<close>

definition load_segment :: Segment where
  "load_segment =
     \<lparr>segment_type = 1, segment_file_offset = 0x100, physical_size = 0x1000,
      virtual_address = 0, virtual_size = 0x1000\<rparr>"

definition dynamic_segment_at :: "u64 \<Rightarrow> u64 \<Rightarrow> Segment" where
  "dynamic_segment_at offset sz =
     \<lparr>segment_type = 2, segment_file_offset = offset, physical_size = sz,
      virtual_address = 0x2000, virtual_size = sz\<rparr>"

definition dynstr_at :: "u64 \<Rightarrow> Section" where
  "dynstr_at offset =
     \<lparr>section_name = ''.dynstr'', section_type = 3, section_file_offset = offset\<rparr>"

text \<open>
  Three entries of type \<open>Elf32_Dyn\<close>: \<open>(DT_STRTAB, 0x10)\<close>, \<open>(DT_NEEDED, 0x99)\<close>,
  \<open>(DT_STRTAB, 0x20)\<close>.
\<close>

definition stream32 :: "u8 list" where
  "stream32 =
     [5, 0, 0, 0, 0x10, 0, 0, 0,  1, 0, 0, 0, 0x99, 0, 0, 0,  5, 0, 0, 0, 0x20, 0, 0, 0]"

text \<open>Two entries of type \<open>Elf64_Dyn\<close>: \<open>(DT_STRTAB, 0x10)\<close>, \<open>(DT_STRTAB, 0x20)\<close>.\<close>

definition stream64 :: "u8 list" where
  "stream64 =
     [5, 0, 0, 0, 0, 0, 0, 0, 0x10, 0, 0, 0, 0, 0, 0, 0,
      5, 0, 0, 0, 0, 0, 0, 0, 0x20, 0, 0, 0, 0, 0, 0, 0]"

definition example_parser ::
    "u32 \<Rightarrow> u8 list \<Rightarrow> Segment option list \<Rightarrow> Section option list \<Rightarrow> Parser" where
  "example_parser t content segs secs =
     \<lparr>stream = content, binary_size = of_nat (length content),
      binary = empty_binary\<lparr>binary_type := t, segments := segs, sections := secs\<rparr>,
      parser_type = t, count_mtd = COUNT_AUTO\<rparr>"

text \<open>Two symbols at the addresses 1 and 2, with the names \<open>a\<close> and \<open>b\<close> and no version.\<close>

definition two_symbols :: Binary where
  "two_symbols =
     empty_binary
       \<lparr>dynamic_symbols := [1, 2],
        symbol_objects := [\<lparr>symbol_name = ''a'', symbol_version = 0\<rparr>,
                           \<lparr>symbol_name = ''b'', symbol_version = 0\<rparr>]\<rparr>"

definition symbols_parser :: "u8 list \<Rightarrow> Binary \<Rightarrow> Parser" where
  "symbols_parser content b =
     \<lparr>stream = content, binary_size = of_nat (length content), binary = b,
      parser_type = 1, count_mtd = COUNT_AUTO\<rparr>"

text \<open>\<open>2 ^ 32\<close> symbols, at the addresses from 1 to \<open>2 ^ 32\<close>.\<close>

definition many_symbols :: Binary where
  "many_symbols =
     empty_binary
       \<lparr>dynamic_symbols := map Suc [0..<2 ^ 32],
        symbol_objects := replicate (2 ^ 32) \<lparr>symbol_name = [], symbol_version = 0\<rparr>\<rparr>"

text \<open>The two symbols with two versions, and with one version.\<close>

definition two_versions :: Binary where
  "two_versions =
     two_symbols
       \<lparr>symbol_version_table := [2, 1],
        version_objects := [\<lparr>version_value = 7\<rparr>, \<lparr>version_value = 8\<rparr>]\<rparr>"

definition one_version :: Binary where
  "one_version =
     two_symbols\<lparr>symbol_version_table := [1], version_objects := [\<lparr>version_value = 7\<rparr>]\<rparr>"

text \<open>
  Collaborators for the examples: the file \<open>a.elf\<close> holds a 32-bit ELF header of 52
  bytes, every other file the five bytes of \<open>hello\<close>; the extraction routines return the
  parser as it is; the default constructor of the base class leaves 0 in \<open>binary_size_\<close>.
\<close>

definition elf32_header :: "u8 list" where
  "elf32_header = [0x7F, 0x45, 0x4C, 0x46, 1] @ replicate 47 0"

definition file_bytes :: "string \<Rightarrow> u8 list" where
  "file_bytes file = (if file = ''a.elf'' then elf32_header else [0x68, 0x65, 0x6C, 0x6C, 0x6F])"

definition stub :: collaborators where
  "stub =
     \<lparr>is_elf = (\<lambda>file. take 4 (file_bytes file) = [0x7F, 0x45, 0x4C, 0x46]),
      base_Parser = (\<lambda>file. Inr (of_nat (length (file_bytes file)))),
      default_binary_size = 0,
      VectorStream_file = (\<lambda>file. Inr (file_bytes file)),
      filename = (\<lambda>file. file),
      new_Binary = empty_binary,
      parse_binary32 = Inr,
      parse_binary64 = Inr\<rparr>"

section \<open>Properties\<close>

subsection \<open>Finding and scanning\<close>

lemma find_if_append:
  "find_if P (xs @ ys) = (case find_if P xs of None \<Rightarrow> find_if P ys | Some x \<Rightarrow> Some x)"
  by (induction P xs rule: find_if.induct) auto

text \<open>
  The loop keeps the translation of the last entry of type \<open>DT_STRTAB\<close>, provided that
  the translations of all of them succeed.
\<close>

lemma scan_entries_translate_all:
  "scan_entries t es va =
     (case translate_all t (map d_val (filter is_strtab es)) of
        Inl e \<Rightarrow> Inl e
      | Inr vs \<Rightarrow> Inr (if vs = [] then va else last vs))"
  by (induction es arbitrary: va) (auto simp: is_strtab_def split: sum.splits)

lemma translate_all_Inr:
  "translate_all t vas = Inr vs \<Longrightarrow> map t vas = map Inr vs"
  by (induction vas arbitrary: vs) (auto split: sum.splits)

lemma translate_all_total:
  "\<forall>va\<in>set vas. \<exists>w. t va = Inr w \<Longrightarrow> \<exists>vs. translate_all t vas = Inr vs"
  by (induction vas) (auto split: sum.splits)

lemma translate_all_each:
  "translate_all t vas = Inr vs \<Longrightarrow> va \<in> set vas \<Longrightarrow> \<exists>w. t va = Inr w"
  by (induction vas arbitrary: vs) (auto split: sum.splits)

lemma translate_all_last:
  assumes "translate_all t vas = Inr vs" and "vas \<noteq> []"
  shows "vs \<noteq> [] \<and> t (last vas) = Inr (last vs)"
proof -
  have m: "map t vas = map Inr vs"
    using assms(1) by (rule translate_all_Inr)
  then have "length vas = length vs"
    by (metis length_map)
  with assms(2) have ne: "vs \<noteq> []"
    by auto
  have "t (last vas) = last (map t vas)"
    using assms(2) by (simp add: last_map)
  also have "\<dots> = Inr (last vs)"
    using ne by (simp add: m last_map)
  finally show ?thesis
    using ne by simp
qed


text \<open>
  The segment strategy, step by step: the first dynamic segment, its array, the
  translations of the entries of type \<open>DT_STRTAB\<close>, the test of the last translation.
\<close>

lemma from_segments_char:
  "get_dynamic_string_table_from_segments vato p =
     (case dynamic_segment p of
        None \<Rightarrow> Inl conversion_error
      | Some segment \<Rightarrow>
          (case dynamic_array p segment of
             Inl e \<Rightarrow> Inl e
           | Inr es \<Rightarrow>
               (case translate_all (vato (binary p)) (map d_val (filter is_strtab es)) of
                  Inl e \<Rightarrow> Inl e
                | Inr vs \<Rightarrow>
                    if vs = [] \<or> last vs = 0 then Inl conversion_error else Inr (last vs))))"
  by (auto simp: get_dynamic_string_table_from_segments_def dynamic_segment_def dynamic_array_def
      scan_entries_translate_all Let_def word_greater_zero_iff split: option.splits sum.splits)

lemma from_sections_error:
  "get_dynamic_string_table_from_sections p = Inl e \<Longrightarrow> e = conversion_error"
  by (auto simp: get_dynamic_string_table_from_sections_def Let_def split: if_splits)

subsection \<open>Evaluation of the examples\<close>

lemma array32:
  "dynamic_array (example_parser 1 stream32 segs secs) (dynamic_segment_at 0 24) =
     Inr [\<lparr>d_tag = 5, d_val = 0x10\<rparr>, \<lparr>d_tag = 1, d_val = 0x99\<rparr>, \<lparr>d_tag = 5, d_val = 0x20\<rparr>]"
  by (simp add: dynamic_array_def example_parser_def dynamic_segment_at_def stream32_def read_def
      ELFCLASS32_def sizeof_Elf32_Dyn_def Elf32_Dyn_at_def le32_def upt_conv_Cons)

lemma array64:
  "dynamic_array (example_parser 2 stream64 segs secs) (dynamic_segment_at 0 32) =
     Inr [\<lparr>d_tag = 5, d_val = 0x10\<rparr>, \<lparr>d_tag = 5, d_val = 0x20\<rparr>]"
  by (simp add: dynamic_array_def example_parser_def dynamic_segment_at_def stream64_def read_def
      ELFCLASS32_def sizeof_Elf64_Dyn_def Elf64_Dyn_at_def le64_def upt_conv_Cons)

lemma translate_example:
  "virtual_address_to_offset
     (binary (example_parser t content (None # Some load_segment # segs) secs)) 0x10 = Inr 0x110"
  "virtual_address_to_offset
     (binary (example_parser t content (None # Some load_segment # segs) secs)) 0x20 = Inr 0x120"
  by (simp_all add: virtual_address_to_offset_def example_parser_def empty_binary_def
      load_segment_def covers_def PT_LOAD_def)

lemma dynamic_segment_example:
  "dynamic_segment (example_parser t content (None # Some load_segment # Some (dynamic_segment_at o1 s1) # segs) secs)
     = Some (dynamic_segment_at o1 s1)"
  "dynamic_segment (example_parser t content [None, Some load_segment] secs) = None"
  by (simp_all add: dynamic_segment_def example_parser_def empty_binary_def load_segment_def
      dynamic_segment_at_def PT_DYNAMIC_def)

subsection \<open>The segment strategy\<close>

text \<open>
  C4. The segment strategy returns an offset \<open>v\<close> exactly when there is a dynamic
  segment, its array is read, the array has at least one entry whose tag is the
  string-table-address tag, each of these entries translates, and \<open>v\<close> is the translation
  of the last of them in scan order and is not zero. So with several such entries the
  last one scanned decides the offset: the scan does not stop at the first. The array is
  decoded with the entry width of the class (\<open>dynamic_array\<close>), and the statement is the
  same for the 32-bit and the 64-bit path.
\<close>

theorem last_strtab_entry_wins:
  "get_dynamic_string_table_from_segments vato p = Inr v \<longleftrightarrow>
     (\<exists>segment es.
        dynamic_segment p = Some segment \<and> dynamic_array p segment = Inr es \<and>
        filter is_strtab es \<noteq> [] \<and>
        (\<forall>m\<in>set (filter is_strtab es). \<exists>w. vato (binary p) (d_val m) = Inr w) \<and>
        vato (binary p) (d_val (last (filter is_strtab es))) = Inr v \<and> v \<noteq> 0)"
  (is "?L \<longleftrightarrow> ?R")
proof
  assume l: ?L
  then obtain segment where s: "dynamic_segment p = Some segment"
    by (auto simp: from_segments_char split: option.splits)
  from l s obtain es where a: "dynamic_array p segment = Inr es"
    by (auto simp: from_segments_char split: sum.splits)
  let ?ms = "filter is_strtab es"
  have l': "(case translate_all (vato (binary p)) (map d_val ?ms) of
               Inl e \<Rightarrow> Inl e
             | Inr vs \<Rightarrow> if vs = [] \<or> last vs = 0 then Inl conversion_error else Inr (last vs))
            = Inr v"
    using l s a by (simp add: from_segments_char)
  then obtain vs where t: "translate_all (vato (binary p)) (map d_val ?ms) = Inr vs"
    by (cases "translate_all (vato (binary p)) (map d_val ?ms)") auto
  have v: "vs \<noteq> []" "last vs \<noteq> 0" "v = last vs"
    using l' t by (auto split: if_splits)
  have ne: "?ms \<noteq> []"
    using t v(1) by (cases ?ms) auto
  have "vato (binary p) (last (map d_val ?ms)) = Inr (last vs)"
    using translate_all_last [OF t] ne by simp
  then have lst: "vato (binary p) (d_val (last ?ms)) = Inr v"
    using ne v(3) by (simp add: last_map)
  have "\<forall>m\<in>set ?ms. \<exists>w. vato (binary p) (d_val m) = Inr w"
    using translate_all_each [OF t] by auto
  with s a ne lst v show ?R
    by blast
next
  assume ?R
  then obtain segment es where
    s: "dynamic_segment p = Some segment" and a: "dynamic_array p segment = Inr es" and
    ne: "filter is_strtab es \<noteq> []" and
    ok: "\<forall>m\<in>set (filter is_strtab es). \<exists>w. vato (binary p) (d_val m) = Inr w" and
    lst: "vato (binary p) (d_val (last (filter is_strtab es))) = Inr v" and v: "v \<noteq> 0"
    by blast
  let ?ms = "filter is_strtab es"
  from ok have "\<forall>va\<in>set (map d_val ?ms). \<exists>w. vato (binary p) va = Inr w"
    by auto
  then obtain vs where t: "translate_all (vato (binary p)) (map d_val ?ms) = Inr vs"
    using translate_all_total by blast
  have "vs \<noteq> [] \<and> vato (binary p) (last (map d_val ?ms)) = Inr (last vs)"
    using translate_all_last [OF t] ne by simp
  then have "vs \<noteq> []" "last vs = v"
    using lst ne by (simp_all add: last_map)
  with s a t v show ?L
    by (simp add: from_segments_char)
qed

text \<open>
  A 32-bit and a 64-bit parser whose dynamic arrays hold the string-table addresses
  \<open>0x10\<close> and then \<open>0x20\<close>: both return \<open>0x120\<close>, the translation of \<open>0x20\<close>.
\<close>

theorem last_strtab_entry_wins_witness:
  "get_dynamic_string_table_from_segments virtual_address_to_offset
     (example_parser 1 stream32 [None, Some load_segment, Some (dynamic_segment_at 0 24)] [])
     = Inr 0x120 \<and>
   get_dynamic_string_table_from_segments virtual_address_to_offset
     (example_parser 2 stream64 [None, Some load_segment, Some (dynamic_segment_at 0 32)] [])
     = Inr 0x120"
proof
  let ?p = "example_parser 1 stream32 [None, Some load_segment, Some (dynamic_segment_at 0 24)] []"
  have "\<exists>segment es.
          dynamic_segment ?p = Some segment \<and> dynamic_array ?p segment = Inr es \<and>
          filter is_strtab es \<noteq> [] \<and>
          (\<forall>m\<in>set (filter is_strtab es). \<exists>w. virtual_address_to_offset (binary ?p) (d_val m) = Inr w) \<and>
          virtual_address_to_offset (binary ?p) (d_val (last (filter is_strtab es))) = Inr 0x120 \<and>
          (0x120 :: u64) \<noteq> 0"
    by (rule exI [of _ "dynamic_segment_at 0 24"], rule exI, intro conjI,
        rule dynamic_segment_example, rule array32)
       (simp_all add: is_strtab_def DT_STRTAB_def translate_example)
  then show "get_dynamic_string_table_from_segments virtual_address_to_offset ?p = Inr 0x120"
    by (rule last_strtab_entry_wins [THEN iffD2])
next
  let ?p = "example_parser 2 stream64 [None, Some load_segment, Some (dynamic_segment_at 0 32)] []"
  have "\<exists>segment es.
          dynamic_segment ?p = Some segment \<and> dynamic_array ?p segment = Inr es \<and>
          filter is_strtab es \<noteq> [] \<and>
          (\<forall>m\<in>set (filter is_strtab es). \<exists>w. virtual_address_to_offset (binary ?p) (d_val m) = Inr w) \<and>
          virtual_address_to_offset (binary ?p) (d_val (last (filter is_strtab es))) = Inr 0x120 \<and>
          (0x120 :: u64) \<noteq> 0"
    by (rule exI [of _ "dynamic_segment_at 0 32"], rule exI, intro conjI,
        rule dynamic_segment_example, rule array64)
       (simp_all add: is_strtab_def DT_STRTAB_def translate_example)
  then show "get_dynamic_string_table_from_segments virtual_address_to_offset ?p = Inr 0x120"
    by (rule last_strtab_entry_wins [THEN iffD2])
qed




subsection \<open>The section strategy\<close>

text \<open>
  C9. The section strategy fails with ConversionError exactly when no section is named
  \<open>.dynstr\<close> with the string-table type, or the one it selects (the first) has the file
  offset zero: the two cases have the same outcome. The strategy never returns the
  null offset.
\<close>

theorem from_sections_never_null:
  "(get_dynamic_string_table_from_sections p = Inl conversion_error \<longleftrightarrow>
      dynstr_section p = None \<or>
      (\<exists>s. dynstr_section p = Some s \<and> section_file_offset s = 0)) \<and>
   get_dynamic_string_table_from_sections p \<noteq> Inr 0"
  by (auto simp: get_dynamic_string_table_from_sections_def dynstr_section_def Let_def
      word_greater_zero_iff split: option.splits)

text \<open>A \<open>.dynstr\<close> section at the file offset zero, and no \<open>.dynstr\<close> section at all.\<close>

theorem from_sections_never_null_witness:
  "get_dynamic_string_table_from_sections
     (example_parser 1 stream32 [] [None, Some (dynstr_at 0)]) = Inl conversion_error \<and>
   get_dynamic_string_table_from_sections
     (example_parser 1 stream32 [] [None]) = Inl conversion_error"
proof
  let ?p = "example_parser 1 stream32 [] [None, Some (dynstr_at 0)]"
  have "dynstr_section ?p = Some (dynstr_at 0)" "section_file_offset (dynstr_at 0) = 0"
    by (simp_all add: dynstr_section_def example_parser_def empty_binary_def dynstr_at_def
        SHT_STRTAB_def)
  then show "get_dynamic_string_table_from_sections ?p = Inl conversion_error"
    using from_sections_never_null [of ?p] by blast
next
  let ?p = "example_parser 1 stream32 [] [None]"
  have "dynstr_section ?p = None"
    by (simp add: dynstr_section_def example_parser_def empty_binary_def)
  then show "get_dynamic_string_table_from_sections ?p = Inl conversion_error"
    using from_sections_never_null [of ?p] by blast
qed

text \<open>
  C10. Let the segment sequence be \<open>before @ Some first # later\<close>, with no dynamic
  segment in \<open>before\<close> and \<open>first\<close> a dynamic segment. Then the segment strategy reads
  the bytes at the file offset and with the physical size of \<open>first\<close>, decodes them with
  the entry width of the class, and its result is decided by the string-table-address
  entries of this array: the failure of the read, the failure of a translation,
  ConversionError when there is no such entry or the last translation is zero, and
  otherwise the translation of the last entry. The segments of \<open>later\<close>, dynamic or not,
  occur in this result only as part of the binary that is given to the translation:
  when the translation is the same function for two sequences \<open>later\<close> and \<open>later'\<close>, the
  results are equal.
\<close>

theorem first_dynamic_segment_only:
  assumes "find_if (\<lambda>segment. segment_type segment = PT_DYNAMIC) before = None"
    and "segment_type first = PT_DYNAMIC"
  shows "get_dynamic_string_table_from_segments vato
           (p\<lparr>binary := b\<lparr>segments := before @ Some first # later\<rparr>\<rparr>)
         = (case read (stream p) (segment_file_offset first) (physical_size first) of
              Inl e \<Rightarrow> Inl e
            | Inr entries \<Rightarrow>
                (case translate_all (vato (b\<lparr>segments := before @ Some first # later\<rparr>))
                        (map d_val (filter is_strtab
                           (if parser_type p = ELFCLASS32
                            then map (Elf32_Dyn_at entries)
                                   [0..<unat (physical_size first div sizeof_Elf32_Dyn)]
                            else map (Elf64_Dyn_at entries)
                                   [0..<unat (physical_size first div sizeof_Elf64_Dyn)]))) of
                   Inl e \<Rightarrow> Inl e
                 | Inr vs \<Rightarrow> if vs = [] \<or> last vs = 0 then Inl conversion_error
                             else Inr (last vs))) \<and>
         ((\<forall>va. vato (b\<lparr>segments := before @ Some first # later\<rparr>) va
                = vato (b\<lparr>segments := before @ Some first # later'\<rparr>) va) \<longrightarrow>
          get_dynamic_string_table_from_segments vato
            (p\<lparr>binary := b\<lparr>segments := before @ Some first # later\<rparr>\<rparr>)
          = get_dynamic_string_table_from_segments vato
            (p\<lparr>binary := b\<lparr>segments := before @ Some first # later'\<rparr>\<rparr>))"
proof (intro conjI impI)
  let ?p1 = "p\<lparr>binary := b\<lparr>segments := before @ Some first # later\<rparr>\<rparr>"
  let ?p2 = "p\<lparr>binary := b\<lparr>segments := before @ Some first # later'\<rparr>\<rparr>"
  have s1: "dynamic_segment ?p1 = Some first" and s2: "dynamic_segment ?p2 = Some first"
    using assms by (simp_all add: dynamic_segment_def find_if_append)
  have a1: "dynamic_array ?p1 first = dynamic_array p first"
    and a2: "dynamic_array ?p2 first = dynamic_array p first"
    by (simp_all add: dynamic_array_def split: sum.splits)
  have c: "get_dynamic_string_table_from_segments vato ?p1
        = (case dynamic_array p first of
             Inl e \<Rightarrow> Inl e
           | Inr es \<Rightarrow>
               (case translate_all (vato (b\<lparr>segments := before @ Some first # later\<rparr>))
                       (map d_val (filter is_strtab es)) of
                  Inl e \<Rightarrow> Inl e
                | Inr vs \<Rightarrow> if vs = [] \<or> last vs = 0 then Inl conversion_error
                            else Inr (last vs)))"
    by (simp add: from_segments_char s1 a1 split: sum.splits)
  show "get_dynamic_string_table_from_segments vato ?p1
         = (case read (stream p) (segment_file_offset first) (physical_size first) of
              Inl e \<Rightarrow> Inl e
            | Inr entries \<Rightarrow>
                (case translate_all (vato (b\<lparr>segments := before @ Some first # later\<rparr>))
                        (map d_val (filter is_strtab
                           (if parser_type p = ELFCLASS32
                            then map (Elf32_Dyn_at entries)
                                   [0..<unat (physical_size first div sizeof_Elf32_Dyn)]
                            else map (Elf64_Dyn_at entries)
                                   [0..<unat (physical_size first div sizeof_Elf64_Dyn)]))) of
                   Inl e \<Rightarrow> Inl e
                 | Inr vs \<Rightarrow> if vs = [] \<or> last vs = 0 then Inl conversion_error
                             else Inr (last vs)))"
    by (simp add: c dynamic_array_def split: sum.splits)
  assume "\<forall>va. vato (b\<lparr>segments := before @ Some first # later\<rparr>) va
                = vato (b\<lparr>segments := before @ Some first # later'\<rparr>) va"
  then have t: "vato (binary ?p1) = vato (binary ?p2)"
    by (intro ext) simp
  show "get_dynamic_string_table_from_segments vato ?p1
          = get_dynamic_string_table_from_segments vato ?p2"
    by (simp only: from_segments_char s1 s2 option.case a1 a2 t)
qed

text \<open>
  The stream \<open>stream32\<close> with two dynamic segments after a null pointer and a loadable
  segment: one of 8 bytes at offset 16, whose entry is \<open>(DT_STRTAB, 0x20)\<close>, and one of 8
  bytes at offset 0, whose entry is \<open>(DT_STRTAB, 0x10)\<close>. With the segment at offset 16
  first the result is \<open>0x120\<close>, with the segment at offset 0 first it is \<open>0x110\<close>.
\<close>

theorem first_dynamic_segment_only_witness:
  "get_dynamic_string_table_from_segments virtual_address_to_offset
     ((example_parser 1 stream32 [] [])
        \<lparr>binary := empty_binary
           \<lparr>segments := [None, Some load_segment] @ Some (dynamic_segment_at 16 8) #
                         [Some (dynamic_segment_at 0 8)]\<rparr>\<rparr>) = Inr 0x120 \<and>
   get_dynamic_string_table_from_segments virtual_address_to_offset
     ((example_parser 1 stream32 [] [])
        \<lparr>binary := empty_binary
           \<lparr>segments := [None, Some load_segment] @ Some (dynamic_segment_at 0 8) #
                         [Some (dynamic_segment_at 16 8)]\<rparr>\<rparr>) = Inr 0x110"
proof -
  have b: "find_if (\<lambda>segment. segment_type segment = PT_DYNAMIC) [None, Some load_segment] = None"
    by (simp add: load_segment_def PT_DYNAMIC_def)
  have d: "segment_type (dynamic_segment_at 16 8) = PT_DYNAMIC"
    "segment_type (dynamic_segment_at 0 8) = PT_DYNAMIC"
    by (simp_all add: dynamic_segment_at_def PT_DYNAMIC_def)
  have e: "stream (example_parser 1 stream32 [] []) = stream32"
    "parser_type (example_parser 1 stream32 [] []) = ELFCLASS32"
    by (simp_all add: example_parser_def ELFCLASS32_def)
  have r1: "read stream32 (segment_file_offset (dynamic_segment_at 16 8))
              (physical_size (dynamic_segment_at 16 8)) = Inr [5, 0, 0, 0, 0x20, 0, 0, 0]"
    and r2: "read stream32 (segment_file_offset (dynamic_segment_at 0 8))
              (physical_size (dynamic_segment_at 0 8)) = Inr [5, 0, 0, 0, 0x10, 0, 0, 0]"
    by (simp_all add: read_def stream32_def dynamic_segment_at_def)
  have n: "unat (physical_size (dynamic_segment_at 16 8) div sizeof_Elf32_Dyn) = 1"
    "unat (physical_size (dynamic_segment_at 0 8) div sizeof_Elf32_Dyn) = 1"
    by (simp_all add: dynamic_segment_at_def sizeof_Elf32_Dyn_def)
  have v: "virtual_address_to_offset
             (empty_binary\<lparr>segments := None # Some load_segment # later\<rparr>) 0x20 = Inr 0x120"
    "virtual_address_to_offset
             (empty_binary\<lparr>segments := None # Some load_segment # later\<rparr>) 0x10 = Inr 0x110"
    for later
    by (simp_all add: virtual_address_to_offset_def load_segment_def covers_def PT_LOAD_def)
  from first_dynamic_segment_only
      [where vato = virtual_address_to_offset and p = "example_parser 1 stream32 [] []"
         and b = empty_binary and later = "[Some (dynamic_segment_at 0 8)]",
       OF b d(1), THEN conjunct1]
  have "get_dynamic_string_table_from_segments virtual_address_to_offset
     ((example_parser 1 stream32 [] [])
        \<lparr>binary := empty_binary
           \<lparr>segments := [None, Some load_segment] @ Some (dynamic_segment_at 16 8) #
                         [Some (dynamic_segment_at 0 8)]\<rparr>\<rparr>) = Inr 0x120"
    by (simp add: e r1 n Elf32_Dyn_at_def le32_def is_strtab_def DT_STRTAB_def v)
  moreover
  from first_dynamic_segment_only
      [where vato = virtual_address_to_offset and p = "example_parser 1 stream32 [] []"
         and b = empty_binary and later = "[Some (dynamic_segment_at 16 8)]",
       OF b d(2), THEN conjunct1]
  have "get_dynamic_string_table_from_segments virtual_address_to_offset
     ((example_parser 1 stream32 [] [])
        \<lparr>binary := empty_binary
           \<lparr>segments := [None, Some load_segment] @ Some (dynamic_segment_at 0 8) #
                         [Some (dynamic_segment_at 16 8)]\<rparr>\<rparr>) = Inr 0x110"
    by (simp add: e r2 n Elf32_Dyn_at_def le32_def is_strtab_def DT_STRTAB_def v)
  ultimately show ?thesis
    by simp
qed

subsection \<open>The two strategies in order\<close>

text \<open>
  C3, as the specification states it: the section strategy is attempted if and only if
  the segment strategy fails, and the call fails with ConversionError when both fail.
  It is false when the segment strategy fails with another exception than
  \<open>conversion_error\<close>. Here the dynamic segment claims 48 bytes of a stream of 24: the
  read of the array fails with OutOfBounds, the section strategy would return \<open>0x300\<close>,
  and the call fails with OutOfBounds.
\<close>

theorem string_table_no_fallback_on_out_of_bounds:
  "get_dynamic_string_table_from_segments virtual_address_to_offset
     (example_parser 1 stream32 [None, Some load_segment, Some (dynamic_segment_at 0 48)]
        [None, Some (dynstr_at 0x300)]) = Inl OutOfBounds \<and>
   get_dynamic_string_table_from_sections
     (example_parser 1 stream32 [None, Some load_segment, Some (dynamic_segment_at 0 48)]
        [None, Some (dynstr_at 0x300)]) = Inr 0x300 \<and>
   get_dynamic_string_table virtual_address_to_offset
     (example_parser 1 stream32 [None, Some load_segment, Some (dynamic_segment_at 0 48)]
        [None, Some (dynstr_at 0x300)]) = Inl OutOfBounds"
proof -
  let ?p = "example_parser 1 stream32 [None, Some load_segment, Some (dynamic_segment_at 0 48)]
              [None, Some (dynstr_at 0x300)]"
  have s: "dynamic_segment ?p = Some (dynamic_segment_at 0 48)"
    by (rule dynamic_segment_example)
  have a: "dynamic_array ?p (dynamic_segment_at 0 48) = Inl OutOfBounds"
    by (simp add: dynamic_array_def example_parser_def dynamic_segment_at_def stream32_def
        read_def)
  have g: "get_dynamic_string_table_from_segments virtual_address_to_offset ?p = Inl OutOfBounds"
    by (simp add: from_segments_char s a)
  have c: "get_dynamic_string_table_from_sections ?p = Inr 0x300"
    by (simp add: get_dynamic_string_table_from_sections_def example_parser_def empty_binary_def
        dynstr_at_def SHT_STRTAB_def)
  have "get_dynamic_string_table virtual_address_to_offset ?p = Inl OutOfBounds"
    by (simp add: get_dynamic_string_table_def g)
  with g c show ?thesis
    by simp
qed

text \<open>
  C3, amended. \<open>get_dynamic_string_table\<close> runs the segment strategy first. An offset of
  the segment strategy is returned, whatever the sections are. The section strategy
  decides the result exactly when the segment strategy fails with ConversionError; any
  other exception of the segment strategy leaves the call as it is. When the segment
  strategy fails with ConversionError and the section strategy fails, the call fails
  with ConversionError.
\<close>

theorem string_table_fallback_on_conversion_error:
  "(\<forall>offset. get_dynamic_string_table_from_segments vato p = Inr offset \<longrightarrow>
      get_dynamic_string_table vato p = Inr offset) \<and>
   (get_dynamic_string_table_from_segments vato p = Inl conversion_error \<longrightarrow>
      get_dynamic_string_table vato p = get_dynamic_string_table_from_sections p) \<and>
   (\<forall>e. get_dynamic_string_table_from_segments vato p = Inl e \<and> e \<noteq> conversion_error \<longrightarrow>
      get_dynamic_string_table vato p = Inl e) \<and>
   (get_dynamic_string_table_from_segments vato p = Inl conversion_error \<and>
    (\<forall>offset. get_dynamic_string_table_from_sections p \<noteq> Inr offset) \<longrightarrow>
      get_dynamic_string_table vato p = Inl conversion_error)"
proof (intro conjI allI impI)
  fix offset
  assume "get_dynamic_string_table_from_segments vato p = Inr offset"
  then show "get_dynamic_string_table vato p = Inr offset"
    by (simp add: get_dynamic_string_table_def)
next
  assume "get_dynamic_string_table_from_segments vato p = Inl conversion_error"
  then show "get_dynamic_string_table vato p = get_dynamic_string_table_from_sections p"
    by (simp add: get_dynamic_string_table_def)
next
  fix e
  assume "get_dynamic_string_table_from_segments vato p = Inl e \<and> e \<noteq> conversion_error"
  then show "get_dynamic_string_table vato p = Inl e"
    by (simp add: get_dynamic_string_table_def)
next
  assume h: "get_dynamic_string_table_from_segments vato p = Inl conversion_error \<and>
             (\<forall>offset. get_dynamic_string_table_from_sections p \<noteq> Inr offset)"
  then obtain e where e: "get_dynamic_string_table_from_sections p = Inl e"
    by (cases "get_dynamic_string_table_from_sections p") auto
  then have "e = conversion_error"
    by (rule from_sections_error)
  with h e show "get_dynamic_string_table vato p = Inl conversion_error"
    by (simp add: get_dynamic_string_table_def)
qed

text \<open>
  A binary with a dynamic segment and a \<open>.dynstr\<close> section at \<open>0x300\<close>: the offset
  \<open>0x120\<close> of the segment strategy is returned. The same sections without a dynamic
  segment: the offset \<open>0x300\<close> of the section strategy is returned. Neither: the call
  fails with ConversionError.
\<close>

theorem string_table_fallback_on_conversion_error_witness:
  "get_dynamic_string_table virtual_address_to_offset
     (example_parser 1 stream32 [None, Some load_segment, Some (dynamic_segment_at 0 24)]
        [None, Some (dynstr_at 0x300)]) = Inr 0x120 \<and>
   get_dynamic_string_table virtual_address_to_offset
     (example_parser 1 stream32 [None, Some load_segment] [None, Some (dynstr_at 0x300)])
     = Inr 0x300 \<and>
   get_dynamic_string_table virtual_address_to_offset
     (example_parser 1 stream32 [None, Some load_segment] [None]) = Inl conversion_error"
proof (intro conjI)
  let ?p = "example_parser 1 stream32 [None, Some load_segment, Some (dynamic_segment_at 0 24)]
              [None, Some (dynstr_at 0x300)]"
  have "get_dynamic_string_table_from_segments virtual_address_to_offset ?p = Inr 0x120"
    by (simp add: from_segments_char dynamic_segment_example array32 is_strtab_def DT_STRTAB_def
        translate_example)
  then show "get_dynamic_string_table virtual_address_to_offset ?p = Inr 0x120"
    using string_table_fallback_on_conversion_error [of virtual_address_to_offset ?p] by blast
next
  let ?p = "example_parser 1 stream32 [None, Some load_segment] [None, Some (dynstr_at 0x300)]"
  have "get_dynamic_string_table_from_segments virtual_address_to_offset ?p = Inl conversion_error"
    by (simp add: from_segments_char dynamic_segment_example)
  moreover have "get_dynamic_string_table_from_sections ?p = Inr 0x300"
    by (simp add: get_dynamic_string_table_from_sections_def example_parser_def empty_binary_def
        dynstr_at_def SHT_STRTAB_def)
  ultimately show "get_dynamic_string_table virtual_address_to_offset ?p = Inr 0x300"
    using string_table_fallback_on_conversion_error [of virtual_address_to_offset ?p] by simp
next
  let ?p = "example_parser 1 stream32 [None, Some load_segment] [None]"
  have "get_dynamic_string_table_from_segments virtual_address_to_offset ?p = Inl conversion_error"
    by (simp add: from_segments_char dynamic_segment_example)
  moreover have "get_dynamic_string_table_from_sections ?p = Inl conversion_error"
    by (simp add: get_dynamic_string_table_from_sections_def example_parser_def empty_binary_def)
  ultimately show "get_dynamic_string_table virtual_address_to_offset ?p = Inl conversion_error"
    using string_table_fallback_on_conversion_error [of virtual_address_to_offset ?p] by simp
qed

subsection \<open>Reading the symbol versions\<close>

lemma unat_nb_entries:
  "unat (of_nat (length (dynamic_symbols (binary p))) :: u32) = nb_versions p"
  by (simp add: nb_versions_def unat_of_nat)

lemma unat_array_size:
  "unat ((ucast (w :: u32) :: u64) * sizeof_uint16_t) = 2 * unat w"
proof -
  have less: "unat w < 2 ^ 32"
    using unsigned_less [of w, where 'a = nat] by simp
  then have "unat w < 2 ^ 64"
    by simp
  then have "unat (ucast w :: u64) = unat w"
    by (simp add: unsigned_ucast_eq take_bit_nat_eq_self)
  moreover have "unat w * 2 < 2 ^ 64"
    using less by simp
  ultimately show ?thesis
    by (simp add: sizeof_uint16_t_def unat_word_ariths)
qed

lemma fold_push_back_version:
  "fold (\<lambda>i. push_back_version (f i)) is b =
     b\<lparr>version_objects := version_objects b @ map (\<lambda>i. \<lparr>version_value = f i\<rparr>) is,
       symbol_version_table := symbol_version_table b @
         map (\<lambda>k. Suc (length (version_objects b) + k)) [0..<length is]\<rparr>"
proof (induction "is" arbitrary: b)
  case Nil
  then show ?case by simp
next
  case (Cons i "is")
  let ?g = "\<lambda>i. push_back_version (f i)"
  let ?b = "push_back_version (f i) b"
  have "fold ?g (i # is) b = fold ?g is ?b"
    by simp
  also have "\<dots> = ?b
      \<lparr>version_objects := version_objects ?b @ map (\<lambda>i. \<lparr>version_value = f i\<rparr>) is,
       symbol_version_table := symbol_version_table ?b @
         map (\<lambda>k. Suc (length (version_objects ?b) + k)) [0..<length is]\<rparr>"
    by (rule Cons.IH)
  also have "\<dots> = b\<lparr>version_objects := version_objects b @ map (\<lambda>i. \<lparr>version_value = f i\<rparr>) (i # is),
       symbol_version_table := symbol_version_table b @
         map (\<lambda>k. Suc (length (version_objects b) + k)) [0..<length (i # is)]\<rparr>"
    by (simp add: push_back_version_def new_def map_upt_Suc del: upt_Suc)
  finally show ?case .
qed

lemma le16_read:
  assumes "2 * i + 2 \<le> n"
  shows "le16 (take n (drop k content)) (2 * i) = le16 content (k + 2 * i)"
proof -
  have "take 2 (drop (2 * i) (take n (drop k content))) = take 2 (drop (k + 2 * i) content)"
    using assms by (simp add: drop_take min_def add.commute)
  then show ?thesis
    by (simp add: le16_def)
qed

text \<open>The binary after \<open>parse_symbol_version\<close>, when the read succeeds.\<close>

lemma parse_symbol_version_Inr:
  assumes "unat symbol_version_offset + 2 * nb_versions p \<le> length (stream p)"
  shows "parse_symbol_version symbol_version_offset p =
     Inr (p\<lparr>binary := (binary p)
       \<lparr>version_objects := version_objects (binary p) @
          map (\<lambda>i. \<lparr>version_value =
                 le16 (take (2 * nb_versions p) (drop (unat symbol_version_offset) (stream p)))
                   (2 * i)\<rparr>) [0..<nb_versions p],
        symbol_version_table := symbol_version_table (binary p) @
          map (\<lambda>k. Suc (length (version_objects (binary p)) + k)) [0..<nb_versions p]\<rparr>\<rparr>)"
  using assms
  by (simp add: parse_symbol_version_def Let_def read_def unat_array_size unat_nb_entries
      fold_push_back_version)

lemma parse_symbol_version_Inl:
  assumes "length (stream p) < unat symbol_version_offset + 2 * nb_versions p"
  shows "parse_symbol_version symbol_version_offset p = Inl OutOfBounds"
  using assms
  by (simp add: parse_symbol_version_def Let_def read_def unat_array_size unat_nb_entries)

text \<open>
  C6, as the specification states it: \<open>count\<close> is the number of dynamic symbols. It is
  false for \<open>2 ^ 32\<close> dynamic symbols: the number is cast to \<open>uint32_t\<close>, which makes it
  0. On an empty stream, where a read of \<open>2 ^ 32\<close> values exceeds the stream, the call
  succeeds and appends no version.
\<close>

theorem parse_symbol_version_truncates_count:
  "length (dynamic_symbols (binary (symbols_parser [] many_symbols))) = 2 ^ 32 \<and>
   parse_symbol_version 0 (symbols_parser [] many_symbols) = Inr (symbols_parser [] many_symbols) \<and>
   symbol_version_table (binary (symbols_parser [] many_symbols)) = []"
proof -
  let ?p = "symbols_parser [] many_symbols"
  have len: "length (dynamic_symbols (binary ?p)) = 2 ^ 32"
    by (simp add: symbols_parser_def many_symbols_def)
  have n: "nb_versions ?p = 0"
    by (simp only: nb_versions_def len mod_self)
  have "parse_symbol_version 0 ?p = Inr ?p"
    by (simp add: parse_symbol_version_Inr n)
  moreover have "symbol_version_table (binary ?p) = []"
    by (simp add: symbols_parser_def many_symbols_def empty_binary_def)
  ultimately show ?thesis
    using len by simp
qed

text \<open>
  C6, amended. \<open>parse_symbol_version\<close> reads \<open>count\<close> contiguous 16-bit values starting
  at the given offset, where \<open>count\<close> is the number of dynamic symbols modulo \<open>2 ^ 32\<close>
  (\<open>nb_versions\<close>; it is the number of dynamic symbols when that is below \<open>2 ^ 32\<close>).
  When the \<open>2 * count\<close> bytes from the offset lie within the stream, it appends \<open>count\<close>
  entries to \<open>symbol_version_table_\<close>, keeping the entries that were there, and the
  \<open>i\<close>-th new entry points to a \<open>SymbolVersion\<close> whose value is the 16-bit integer at the
  bytes \<open>offset + 2 * i\<close> and \<open>offset + 2 * i + 1\<close> of the stream. Otherwise it fails with
  OutOfBounds.
\<close>

theorem parse_symbol_version_reads_count:
  "(unat symbol_version_offset + 2 * nb_versions p \<le> length (stream p) \<longrightarrow>
      (\<exists>b'. parse_symbol_version symbol_version_offset p = Inr (p\<lparr>binary := b'\<rparr>) \<and>
            dynamic_symbols b' = dynamic_symbols (binary p) \<and>
            take (length (symbol_version_table (binary p))) (symbol_version_table b')
              = symbol_version_table (binary p) \<and>
            length (symbol_version_table b')
              = length (symbol_version_table (binary p)) + nb_versions p \<and>
            (\<forall>i<nb_versions p.
               map_option version_value
                 (deref (version_objects b')
                    (symbol_version_table b' ! (length (symbol_version_table (binary p)) + i)))
               = Some (le16 (stream p) (unat symbol_version_offset + 2 * i))))) \<and>
   (length (stream p) < unat symbol_version_offset + 2 * nb_versions p \<longrightarrow>
      parse_symbol_version symbol_version_offset p = Inl OutOfBounds) \<and>
   (length (dynamic_symbols (binary p)) < 2 ^ 32 \<longrightarrow>
      nb_versions p = length (dynamic_symbols (binary p)))"
proof (intro conjI impI)
  assume ok: "unat symbol_version_offset + 2 * nb_versions p \<le> length (stream p)"
  let ?n = "nb_versions p"
  let ?array = "take (2 * ?n) (drop (unat symbol_version_offset) (stream p))"
  let ?vo = "version_objects (binary p)"
  let ?svt = "symbol_version_table (binary p)"
  let ?b' = "(binary p)
       \<lparr>version_objects := ?vo @ map (\<lambda>i. \<lparr>version_value = le16 ?array (2 * i)\<rparr>) [0..<?n],
        symbol_version_table := ?svt @ map (\<lambda>k. Suc (length ?vo + k)) [0..<?n]\<rparr>"
  have r: "parse_symbol_version symbol_version_offset p = Inr (p\<lparr>binary := ?b'\<rparr>)"
    using ok by (rule parse_symbol_version_Inr)
  have each: "map_option version_value
                (deref (version_objects ?b') (symbol_version_table ?b' ! (length ?svt + i)))
              = Some (le16 (stream p) (unat symbol_version_offset + 2 * i))"
    if "i < ?n" for i
  proof -
    have "symbol_version_table ?b' ! (length ?svt + i) = Suc (length ?vo + i)"
      using that by (simp add: nth_append)
    moreover have "deref (version_objects ?b') (Suc (length ?vo + i))
                   = Some \<lparr>version_value = le16 ?array (2 * i)\<rparr>"
      using that by (simp add: deref_def nth_append)
    moreover have "le16 ?array (2 * i) = le16 (stream p) (unat symbol_version_offset + 2 * i)"
      using that by (intro le16_read) simp
    ultimately show ?thesis
      by simp
  qed
  show "\<exists>b'. parse_symbol_version symbol_version_offset p = Inr (p\<lparr>binary := b'\<rparr>) \<and>
            dynamic_symbols b' = dynamic_symbols (binary p) \<and>
            take (length ?svt) (symbol_version_table b') = ?svt \<and>
            length (symbol_version_table b') = length ?svt + ?n \<and>
            (\<forall>i<?n. map_option version_value
                 (deref (version_objects b') (symbol_version_table b' ! (length ?svt + i)))
               = Some (le16 (stream p) (unat symbol_version_offset + 2 * i)))"
  proof (intro exI conjI)
    show "parse_symbol_version symbol_version_offset p = Inr (p\<lparr>binary := ?b'\<rparr>)"
      by (rule r)
    show "dynamic_symbols ?b' = dynamic_symbols (binary p)"
      by simp
    show "take (length ?svt) (symbol_version_table ?b') = ?svt"
      by simp
    show "length (symbol_version_table ?b') = length ?svt + ?n"
      by simp
    show "\<forall>i<?n. map_option version_value
                 (deref (version_objects ?b') (symbol_version_table ?b' ! (length ?svt + i)))
               = Some (le16 (stream p) (unat symbol_version_offset + 2 * i))"
      using each by blast
  qed
next
  assume "length (stream p) < unat symbol_version_offset + 2 * nb_versions p"
  then show "parse_symbol_version symbol_version_offset p = Inl OutOfBounds"
    by (rule parse_symbol_version_Inl)
next
  assume "length (dynamic_symbols (binary p)) < 2 ^ 32"
  then show "nb_versions p = length (dynamic_symbols (binary p))"
    by (simp add: nb_versions_def)
qed

text \<open>
  Two dynamic symbols and the stream \<open>AA 01 00 02 00 BB\<close>, read at offset 1: two versions
  are appended, with the values 1 and 2. Read at offset 3, the four bytes exceed the
  stream.
\<close>

theorem parse_symbol_version_reads_count_witness:
  "(\<exists>b'. parse_symbol_version 1 (symbols_parser [0xAA, 1, 0, 2, 0, 0xBB] two_symbols)
            = Inr ((symbols_parser [0xAA, 1, 0, 2, 0, 0xBB] two_symbols)\<lparr>binary := b'\<rparr>) \<and>
         length (symbol_version_table b') = 2 \<and>
         map_option version_value (deref (version_objects b') (symbol_version_table b' ! 0)) = Some 1 \<and>
         map_option version_value (deref (version_objects b') (symbol_version_table b' ! 1)) = Some 2) \<and>
   parse_symbol_version 3 (symbols_parser [0xAA, 1, 0, 2, 0, 0xBB] two_symbols) = Inl OutOfBounds"
proof
  let ?p = "symbols_parser [0xAA, 1, 0, 2, 0, 0xBB] two_symbols"
  have n: "nb_versions ?p = 2"
    by (simp add: nb_versions_def symbols_parser_def two_symbols_def)
  have t: "symbol_version_table (binary ?p) = []"
    by (simp add: symbols_parser_def two_symbols_def empty_binary_def)
  have s: "stream ?p = [0xAA, 1, 0, 2, 0, 0xBB]"
    by (simp add: symbols_parser_def)
  have "unat (1 :: u64) + 2 * nb_versions ?p \<le> length (stream ?p)"
    by (simp add: n s)
  with parse_symbol_version_reads_count [of 1 ?p] obtain b' where
    r: "parse_symbol_version 1 ?p = Inr (?p\<lparr>binary := b'\<rparr>)" and
    l: "length (symbol_version_table b') = length (symbol_version_table (binary ?p)) + nb_versions ?p" and
    v: "\<forall>i<nb_versions ?p.
          map_option version_value
            (deref (version_objects b')
               (symbol_version_table b' ! (length (symbol_version_table (binary ?p)) + i)))
          = Some (le16 (stream ?p) (unat (1 :: u64) + 2 * i))"
    by blast
  have e0: "le16 (stream ?p) (unat (1 :: u64) + 2 * 0) = 1"
    and e1: "le16 (stream ?p) (unat (1 :: u64) + 2 * 1) = 2"
    by (simp_all add: s le16_def)
  have i0: "(0::nat) < nb_versions ?p" and i1: "(1::nat) < nb_versions ?p"
    by (simp_all add: n)
  have "map_option version_value
          (deref (version_objects b')
             (symbol_version_table b' ! (length (symbol_version_table (binary ?p)) + 0)))
        = Some (le16 (stream ?p) (unat (1 :: u64) + 2 * 0))"
    by (rule v [rule_format, OF i0])
  then have v0: "map_option version_value
                   (deref (version_objects b') (symbol_version_table b' ! 0)) = Some 1"
    by (simp only: e0 t list.size add_0)
  have "map_option version_value
          (deref (version_objects b')
             (symbol_version_table b' ! (length (symbol_version_table (binary ?p)) + 1)))
        = Some (le16 (stream ?p) (unat (1 :: u64) + 2 * 1))"
    by (rule v [rule_format, OF i1])
  then have v1: "map_option version_value
                   (deref (version_objects b') (symbol_version_table b' ! 1)) = Some 2"
    by (simp only: e1 t list.size add_0)
  have l2: "length (symbol_version_table b') = 2"
    using l by (simp add: n t)
  show "\<exists>b'. parse_symbol_version 1 ?p = Inr (?p\<lparr>binary := b'\<rparr>) \<and>
         length (symbol_version_table b') = 2 \<and>
         map_option version_value (deref (version_objects b') (symbol_version_table b' ! 0)) = Some 1 \<and>
         map_option version_value (deref (version_objects b') (symbol_version_table b' ! 1)) = Some 2"
    using r l2 v0 v1 by blast
next
  let ?p = "symbols_parser [0xAA, 1, 0, 2, 0, 0xBB] two_symbols"
  have "length (stream ?p) < unat (3 :: u64) + 2 * nb_versions ?p"
    by (simp add: nb_versions_def symbols_parser_def two_symbols_def)
  then show "parse_symbol_version 3 ?p = Inl OutOfBounds"
    using parse_symbol_version_reads_count [of 3 ?p] by blast
qed

subsection \<open>Linking the symbol versions\<close>

lemma link_step_valid:
  "valid h a \<Longrightarrow> \<exists>h'. link_step a v h = Some h' \<and> length h' = length h \<and>
     map_option symbol_version (deref h' a) = Some v \<and>
     (\<forall>a'. a' \<noteq> a \<longrightarrow> deref h' a' = deref h a')"
  by (auto simp: link_step_def valid_def deref_def store_def nth_list_update)

text \<open>
  The loop over the indices \<open>is\<close>, when the symbols at these indices are allocated and
  pairwise different: every one of them has the version of its index, and the other
  objects are as before.
\<close>

lemma link_loop_correct:
  assumes "\<forall>i\<in>set is. valid h (dynamic_symbols b ! i)"
    and "distinct (map (\<lambda>i. dynamic_symbols b ! i) is)"
  shows "\<exists>h'. link_loop b is h = Some h' \<and> length h' = length h \<and>
           (\<forall>i\<in>set is. map_option symbol_version (deref h' (dynamic_symbols b ! i))
                          = Some (symbol_version_table b ! i)) \<and>
           (\<forall>a. a \<notin> (\<lambda>i. dynamic_symbols b ! i) ` set is \<longrightarrow> deref h' a = deref h a)"
  using assms
proof (induction "is" arbitrary: h)
  case Nil
  then show ?case by simp
next
  case (Cons i "is")
  let ?a = "dynamic_symbols b ! i"
  from Cons.prems(1) have "valid h ?a" by simp
  from link_step_valid [OF this, of "symbol_version_table b ! i"]
  obtain h1 where
    st: "link_step ?a (symbol_version_table b ! i) h = Some h1" and
    len: "length h1 = length h" and
    here: "map_option symbol_version (deref h1 ?a) = Some (symbol_version_table b ! i)" and
    other: "\<forall>a'. a' \<noteq> ?a \<longrightarrow> deref h1 a' = deref h a'"
    by blast
  have v1: "\<forall>j\<in>set is. valid h1 (dynamic_symbols b ! j)"
    using Cons.prems(1) len by (simp add: valid_def)
  have d1: "distinct (map (\<lambda>i. dynamic_symbols b ! i) is)"
    using Cons.prems(2) by simp
  from Cons.IH [OF v1 d1] obtain h' where
    lp: "link_loop b is h1 = Some h'" and
    len': "length h' = length h1" and
    linked: "\<forall>j\<in>set is. map_option symbol_version (deref h' (dynamic_symbols b ! j))
                          = Some (symbol_version_table b ! j)" and
    frame: "\<forall>a. a \<notin> (\<lambda>i. dynamic_symbols b ! i) ` set is \<longrightarrow> deref h' a = deref h1 a"
    by blast
  have notin: "?a \<notin> (\<lambda>i. dynamic_symbols b ! i) ` set is"
    using Cons.prems(2) by auto
  have "deref h' ?a = deref h1 ?a"
    using frame notin by blast
  with here have here': "map_option symbol_version (deref h' ?a) = Some (symbol_version_table b ! i)"
    by simp
  have "\<forall>a. a \<notin> (\<lambda>i. dynamic_symbols b ! i) ` set (i # is) \<longrightarrow> deref h' a = deref h a"
    using frame other by auto
  with st lp len len' linked here' show ?case
    by auto
qed

text \<open>
  C2. Let the pointers of \<open>dynamic_symbols_\<close> address allocated symbols and be pairwise
  different (the binary owns each symbol once). If the number of dynamic symbols equals
  the number of symbol versions, \<open>link_symbol_version\<close> changes the symbol objects only,
  and then the version reference of the \<open>i\<close>-th dynamic symbol is the \<open>i\<close>-th entry of
  \<open>symbol_version_table_\<close>, for every index \<open>i\<close>. If the numbers differ, the parser and
  the binary are unchanged: no symbol receives a version reference.
\<close>

theorem link_symbol_version_all_or_nothing:
  assumes "\<forall>a\<in>set (dynamic_symbols (binary p)). valid (symbol_objects (binary p)) a"
    and "distinct (dynamic_symbols (binary p))"
  shows "(length (dynamic_symbols (binary p)) = length (symbol_version_table (binary p)) \<longrightarrow>
            (\<exists>h. link_symbol_version p = Some (p\<lparr>binary := (binary p)\<lparr>symbol_objects := h\<rparr>\<rparr>) \<and>
                 (\<forall>i<length (dynamic_symbols (binary p)).
                    map_option symbol_version (deref h (dynamic_symbols (binary p) ! i))
                      = Some (symbol_version_table (binary p) ! i)))) \<and>
         (length (dynamic_symbols (binary p)) \<noteq> length (symbol_version_table (binary p)) \<longrightarrow>
            link_symbol_version p = Some p)"
proof -
  let ?b = "binary p"
  let ?n = "length (dynamic_symbols ?b)"
  have m: "map (\<lambda>i. dynamic_symbols ?b ! i) [0..<?n] = dynamic_symbols ?b"
    by (simp add: map_nth)
  have v: "\<forall>i\<in>set [0..<?n]. valid (symbol_objects ?b) (dynamic_symbols ?b ! i)"
    using assms(1) by simp
  have d: "distinct (map (\<lambda>i. dynamic_symbols ?b ! i) [0..<?n])"
    using assms(2) by (simp only: m)
  from link_loop_correct [OF v d] obtain h where
    "link_loop ?b [0..<?n] (symbol_objects ?b) = Some h"
    "\<forall>i\<in>set [0..<?n]. map_option symbol_version (deref h (dynamic_symbols ?b ! i))
                          = Some (symbol_version_table ?b ! i)"
    by blast
  then show ?thesis
    by (auto simp: link_symbol_version_def)
qed

text \<open>
  Two symbols at the addresses 1 and 2 and the version table \<open>[2, 1]\<close>: after linking,
  the first symbol refers to the version at address 2 and the second to the version at
  address 1. With the version table \<open>[1]\<close> nothing changes.
\<close>

theorem link_symbol_version_all_or_nothing_witness:
  "(\<exists>h. link_symbol_version (symbols_parser [] two_versions)
           = Some ((symbols_parser [] two_versions)\<lparr>binary := two_versions\<lparr>symbol_objects := h\<rparr>\<rparr>) \<and>
        map_option symbol_version (deref h 1) = Some 2 \<and>
        map_option symbol_version (deref h 2) = Some 1) \<and>
   link_symbol_version (symbols_parser [] one_version) = Some (symbols_parser [] one_version)"
proof
  let ?p = "symbols_parser [] two_versions"
  have b: "binary ?p = two_versions"
    by (simp add: symbols_parser_def)
  have ds: "dynamic_symbols two_versions = [1, 2]"
    and svt: "symbol_version_table two_versions = [2, 1]"
    and so: "length (symbol_objects two_versions) = 2"
    by (simp_all add: two_versions_def two_symbols_def empty_binary_def)
  have v: "\<forall>a\<in>set (dynamic_symbols (binary ?p)). valid (symbol_objects (binary ?p)) a"
    by (simp add: b ds valid_def so)
  have d: "distinct (dynamic_symbols (binary ?p))"
    by (simp add: b ds)
  have "length (dynamic_symbols (binary ?p)) = length (symbol_version_table (binary ?p))"
    by (simp add: b ds svt)
  with link_symbol_version_all_or_nothing [OF v d] obtain h where
    r: "link_symbol_version ?p = Some (?p\<lparr>binary := (binary ?p)\<lparr>symbol_objects := h\<rparr>\<rparr>)" and
    l: "\<forall>i<length (dynamic_symbols (binary ?p)).
          map_option symbol_version (deref h (dynamic_symbols (binary ?p) ! i))
            = Some (symbol_version_table (binary ?p) ! i)"
    by blast
  have i0: "0 < length (dynamic_symbols (binary ?p))"
    and i1: "1 < length (dynamic_symbols (binary ?p))"
    by (simp_all add: b ds)
  have "map_option symbol_version (deref h (dynamic_symbols (binary ?p) ! 0))
          = Some (symbol_version_table (binary ?p) ! 0)"
    by (rule l [rule_format, OF i0])
  then have l0: "map_option symbol_version (deref h 1) = Some 2"
    by (simp add: b ds svt)
  have "map_option symbol_version (deref h (dynamic_symbols (binary ?p) ! 1))
          = Some (symbol_version_table (binary ?p) ! 1)"
    by (rule l [rule_format, OF i1])
  then have l1: "map_option symbol_version (deref h 2) = Some 1"
    by (simp add: b ds svt)
  from r have "link_symbol_version ?p = Some (?p\<lparr>binary := two_versions\<lparr>symbol_objects := h\<rparr>\<rparr>)"
    by (simp only: b)
  with l0 l1 show "\<exists>h. link_symbol_version ?p
           = Some (?p\<lparr>binary := two_versions\<lparr>symbol_objects := h\<rparr>\<rparr>) \<and>
        map_option symbol_version (deref h 1) = Some 2 \<and>
        map_option symbol_version (deref h 2) = Some 1"
    by blast
next
  let ?p = "symbols_parser [] one_version"
  have b: "binary ?p = one_version"
    by (simp add: symbols_parser_def)
  have ds: "dynamic_symbols one_version = [1, 2]"
    and svt: "symbol_version_table one_version = [1]"
    and so: "length (symbol_objects one_version) = 2"
    by (simp_all add: one_version_def two_symbols_def empty_binary_def)
  have v: "\<forall>a\<in>set (dynamic_symbols (binary ?p)). valid (symbol_objects (binary ?p)) a"
    by (simp add: b ds valid_def so)
  have d: "distinct (dynamic_symbols (binary ?p))"
    by (simp add: b ds)
  have "length (dynamic_symbols (binary ?p)) \<noteq> length (symbol_version_table (binary ?p))"
    by (simp add: b ds svt)
  with link_symbol_version_all_or_nothing [OF v d]
  show "link_symbol_version ?p = Some ?p"
    by blast
qed

subsection \<open>Construction and class dispatch\<close>

lemma read_header:
  assumes "unat sizeof_Elf32_Ehdr \<le> length content"
  shows "\<exists>header. read content 0 sizeof_Elf32_Ehdr = Inr header \<and>
           header ! EI_CLASS = content ! EI_CLASS"
  using assms by (simp add: read_def sizeof_Elf32_Ehdr_def EI_CLASS_def)

lemma read_header_short:
  assumes "length content < unat sizeof_Elf32_Ehdr"
  shows "read content 0 sizeof_Elf32_Ehdr = Inl OutOfBounds"
  using assms by (simp add: read_def)

lemma unat_ucast_byte:
  "unat (ucast (x :: u8) :: u32) = unat x"
proof -
  have "unat x < 2 ^ 8"
    using unsigned_less [of x, where 'a = nat] by simp
  then have "unat x < 2 ^ 32"
    by simp
  then show ?thesis
    by (simp add: unsigned_ucast_eq take_bit_nat_eq_self)
qed

lemma class_of_byte:
  "(ucast (x :: u8) :: u32) = ELFCLASS32 \<longleftrightarrow> x = 1"
  "(ucast (x :: u8) :: u32) = ELFCLASS64 \<longleftrightarrow> x = 2"
  by (simp_all add: word_unat_eq_iff unat_ucast_byte ELFCLASS32_def ELFCLASS64_def)

text \<open>\<open>init\<close> on a content that holds the 52 bytes of the header.\<close>

lemma init_dispatch:
  assumes "unat sizeof_Elf32_Ehdr \<le> length content"
  shows "init c name content size0 mtd =
     (1, if content ! EI_CLASS = 1
         then parse_binary32 c (initial_parser c name content size0 mtd)
         else if content ! EI_CLASS = 2
         then parse_binary64 c (initial_parser c name content size0 mtd)
         else Inl corrupted)"
proof -
  from read_header [OF assms] obtain header where
    "read content 0 sizeof_Elf32_Ehdr = Inr header" "header ! EI_CLASS = content ! EI_CLASS"
    by blast
  then show ?thesis
    by (simp add: init_def initial_parser_def Let_def class_of_byte)
qed

lemma init_short:
  assumes "length content < unat sizeof_Elf32_Ehdr"
  shows "init c name content size0 mtd = (1, Inl OutOfBounds)"
  by (simp add: init_def Let_def read_header_short [OF assms])

lemma fst_init:
  "fst (init c name content size0 mtd) = 1"
  by (simp add: init_def Let_def)

text \<open>
  C1, as the specification states it: for every input, a class tag that is neither the
  32-bit nor the 64-bit one fails with CorruptedHeader. It is false for an input shorter
  than the 52 bytes of the header that \<open>init\<close> reads: the five bytes \<open>7F 45 4C 46 00\<close>
  have the tag \<open>ELFCLASSNONE\<close> in the class field, and the parse fails with OutOfBounds.
\<close>

theorem truncated_header_is_out_of_bounds:
  "[0x7F, 0x45, 0x4C, 0x46, 0] ! EI_CLASS = (0 :: u8) \<and>
   parse_data stub [0x7F, 0x45, 0x4C, 0x46, 0] ''x'' COUNT_AUTO = Inl OutOfBounds"
  by (simp add: parse_data_def Parser_data_def init_def read_def sizeof_Elf32_Ehdr_def EI_CLASS_def)

text \<open>
  C1, amended. For every input that holds the 52 bytes of the identification header
  that \<open>init\<close> reads, \<open>init\<close> takes the class tag from the class field of the header and
  dispatches: with the 32-bit tag the result is that of the 32-bit extraction routine,
  with the 64-bit tag that of the 64-bit routine, both run on the parser that \<open>init\<close> has
  prepared, and with any other tag \<open>init\<close> throws \<open>corrupted\<close>; then both overloads of
  \<open>parse\<close> fail with CorruptedHeader and return no binary. A shorter input fails with
  OutOfBounds.
\<close>

theorem init_dispatches_on_class:
  "(unat sizeof_Elf32_Ehdr \<le> length content \<longrightarrow>
      (content ! EI_CLASS = 1 \<longrightarrow>
         snd (init c name content size0 mtd)
           = parse_binary32 c (initial_parser c name content size0 mtd)) \<and>
      (content ! EI_CLASS = 2 \<longrightarrow>
         snd (init c name content size0 mtd)
           = parse_binary64 c (initial_parser c name content size0 mtd)) \<and>
      (content ! EI_CLASS \<noteq> 1 \<and> content ! EI_CLASS \<noteq> 2 \<longrightarrow>
         snd (init c name content size0 mtd) = Inl corrupted \<and>
         parse_data c content name mtd = Inl corrupted \<and>
         (base_Parser c file = Inr size0 \<and> is_elf c file \<and>
          VectorStream_file c file = Inr content \<longrightarrow>
            parse_file c file mtd = Inl corrupted))) \<and>
   (length content < unat sizeof_Elf32_Ehdr \<longrightarrow>
      snd (init c name content size0 mtd) = Inl OutOfBounds)"
proof (intro conjI impI)
  assume "length content < unat sizeof_Elf32_Ehdr"
  then show "snd (init c name content size0 mtd) = Inl OutOfBounds"
    by (simp add: init_short)
next
  assume "unat sizeof_Elf32_Ehdr \<le> length content" "content ! EI_CLASS = 1"
  then show "snd (init c name content size0 mtd)
               = parse_binary32 c (initial_parser c name content size0 mtd)"
    by (simp add: init_dispatch)
next
  assume "unat sizeof_Elf32_Ehdr \<le> length content" "content ! EI_CLASS = 2"
  then show "snd (init c name content size0 mtd)
               = parse_binary64 c (initial_parser c name content size0 mtd)"
    by (simp add: init_dispatch)
next
  assume "unat sizeof_Elf32_Ehdr \<le> length content"
    "content ! EI_CLASS \<noteq> 1 \<and> content ! EI_CLASS \<noteq> 2"
  then show "snd (init c name content size0 mtd) = Inl corrupted"
    by (simp add: init_dispatch)
next
  assume "unat sizeof_Elf32_Ehdr \<le> length content"
    "content ! EI_CLASS \<noteq> 1 \<and> content ! EI_CLASS \<noteq> 2"
  then show "parse_data c content name mtd = Inl corrupted"
    by (simp add: parse_data_def Parser_data_def init_dispatch)
next
  assume "unat sizeof_Elf32_Ehdr \<le> length content"
    "content ! EI_CLASS \<noteq> 1 \<and> content ! EI_CLASS \<noteq> 2"
    "base_Parser c file = Inr size0 \<and> is_elf c file \<and> VectorStream_file c file = Inr content"
  then show "parse_file c file mtd = Inl corrupted"
    by (simp add: parse_file_def Parser_file_def init_dispatch)
qed

text \<open>
  A header of 52 bytes with the class tag 7: \<open>init\<close> throws \<open>corrupted\<close>, and the parse
  of the buffer fails with CorruptedHeader. The header \<open>elf32_header\<close>, with the class
  tag 1: the result of \<open>init\<close> is that of the 32-bit extraction routine.
\<close>

theorem init_dispatches_on_class_witness:
  "snd (init stub ''x'' ([0x7F, 0x45, 0x4C, 0x46, 7] @ replicate 47 0) 0 COUNT_AUTO) = Inl corrupted \<and>
   parse_data stub ([0x7F, 0x45, 0x4C, 0x46, 7] @ replicate 47 0) ''x'' COUNT_AUTO = Inl corrupted \<and>
   snd (init stub ''x'' elf32_header 0 COUNT_AUTO)
     = parse_binary32 stub (initial_parser stub ''x'' elf32_header 0 COUNT_AUTO)"
proof -
  let ?content = "[0x7F, 0x45, 0x4C, 0x46, 7] @ replicate 47 (0 :: u8)"
  have l: "unat sizeof_Elf32_Ehdr \<le> length ?content"
    by (simp add: sizeof_Elf32_Ehdr_def)
  have t: "?content ! EI_CLASS \<noteq> 1 \<and> ?content ! EI_CLASS \<noteq> 2"
    by (simp add: EI_CLASS_def)
  have l32: "unat sizeof_Elf32_Ehdr \<le> length elf32_header"
    by (simp add: sizeof_Elf32_Ehdr_def elf32_header_def)
  have t32: "elf32_header ! EI_CLASS = 1"
    by (simp add: EI_CLASS_def elf32_header_def)
  from init_dispatches_on_class [of ?content stub "''x''" 0 COUNT_AUTO] l t
  have "snd (init stub ''x'' ?content 0 COUNT_AUTO) = Inl corrupted"
    "parse_data stub ?content ''x'' COUNT_AUTO = Inl corrupted"
    by blast+
  moreover from init_dispatches_on_class [of elf32_header stub "''x''" 0 COUNT_AUTO] l32 t32
  have "snd (init stub ''x'' elf32_header 0 COUNT_AUTO)
          = parse_binary32 stub (initial_parser stub ''x'' elf32_header 0 COUNT_AUTO)"
    by blast
  ultimately show ?thesis
    by simp
qed

text \<open>
  C7. When the constructor of the base class has returned and \<open>is_elf\<close> rejects the
  file, the constructor from a path throws \<open>bad_format\<close> before it creates the stream
  and before \<open>init\<close>, which allocates the binary and runs the extraction: no \<open>Binary\<close>
  has been allocated, and \<open>parse\<close> fails with the format-mismatch error.
\<close>

theorem non_elf_file_rejected_before_allocation:
  assumes "base_Parser c file = Inr size0" and "\<not> is_elf c file"
  shows "Parser_file c file mtd = (0, Inl bad_format) \<and> parse_file c file mtd = Inl bad_format"
  using assms by (simp add: Parser_file_def parse_file_def)

text \<open>The file \<open>notes.txt\<close> holds \<open>hello\<close>, which does not start with the ELF magic.\<close>

theorem non_elf_file_rejected_before_allocation_witness:
  "Parser_file stub ''notes.txt'' COUNT_AUTO = (0, Inl bad_format) \<and>
   parse_file stub ''notes.txt'' COUNT_AUTO = Inl bad_format"
proof (rule non_elf_file_rejected_before_allocation)
  show "base_Parser stub ''notes.txt'' = Inr 5"
    by (simp add: stub_def file_bytes_def)
  show "\<not> is_elf stub ''notes.txt''"
    by (simp add: stub_def file_bytes_def)
qed

text \<open>
  C8. \<open>init\<close> records \<open>binary_size_\<close> as the original size. The constructor from a path
  has it from the constructor of the base class, which is given the file. The constructor
  from a byte buffer default-constructs the base class and never assigns
  \<open>binary_size_\<close>: for extraction routines that keep the recorded size, a successful
  parse of a buffer records the value of the default constructor, whatever the size of
  the buffer is, and a successful parse of a file records the value that the
  constructor of the base class computed from the file.
\<close>

theorem original_size_of_parse:
  assumes "\<forall>p p'. parse_binary32 c p = Inr p' \<longrightarrow>
             original_size (binary p') = original_size (binary p)"
    and "\<forall>p p'. parse_binary64 c p = Inr p' \<longrightarrow>
             original_size (binary p') = original_size (binary p)"
  shows "(parse_data c data name mtd = Inr b \<longrightarrow> original_size b = default_binary_size c) \<and>
         (parse_file c file mtd = Inr b \<longrightarrow> base_Parser c file = Inr (original_size b))"
proof -
  have k: "original_size (binary p') = size0"
    if "snd (init c name' content size0 mtd) = Inr p'" for name' content size0 p'
  proof (cases "unat sizeof_Elf32_Ehdr \<le> length content")
    case True
    let ?p = "initial_parser c name' content size0 mtd"
    have o: "original_size (binary ?p) = size0"
      by (simp add: initial_parser_def)
    from that True have "parse_binary32 c ?p = Inr p' \<or> parse_binary64 c ?p = Inr p'"
      by (auto simp: init_dispatch split: if_splits)
    then have "original_size (binary p') = original_size (binary ?p)"
      using assms by blast
    with o show ?thesis
      by simp
  next
    case False
    with that show ?thesis
      by (simp add: init_short)
  qed
  have d: "original_size b = default_binary_size c" if "parse_data c data name mtd = Inr b"
  proof -
    from that obtain p' where
      "snd (init c name data (default_binary_size c) mtd) = Inr p'" "b = binary p'"
      by (auto simp: parse_data_def Parser_data_def split: sum.splits)
    then show ?thesis
      using k by simp
  qed
  have f: "base_Parser c file = Inr (original_size b)" if "parse_file c file mtd = Inr b"
  proof -
    from that obtain size0 where s: "base_Parser c file = Inr size0"
      by (cases "base_Parser c file") (auto simp: parse_file_def Parser_file_def)
    from that s obtain content where v: "is_elf c file" "VectorStream_file c file = Inr content"
      by (cases "VectorStream_file c file")
         (auto simp: parse_file_def Parser_file_def split: if_splits)
    from that s v obtain p' where
      "snd (init c (filename c file) content size0 mtd) = Inr p'" "b = binary p'"
      by (auto simp: parse_file_def Parser_file_def split: sum.splits)
    then have "original_size b = size0"
      using k by simp
    with s show ?thesis
      by simp
  qed
  from d f show ?thesis
    by blast
qed

text \<open>
  The buffer \<open>elf32_header\<close> has 52 bytes and its parse succeeds, and the original size
  that the binary records is 0. The file \<open>a.elf\<close> with the same 52 bytes records 52.
\<close>

theorem original_size_of_parse_witness:
  "length elf32_header = 52 \<and>
   map_sum id original_size (parse_data stub elf32_header ''a.elf'' COUNT_AUTO) = Inr 0 \<and>
   map_sum id original_size (parse_file stub ''a.elf'' COUNT_AUTO) = Inr 52"
proof -
  have k: "\<forall>p p'. parse_binary32 stub p = Inr p' \<longrightarrow>
             original_size (binary p') = original_size (binary p)"
    "\<forall>p p'. parse_binary64 stub p = Inr p' \<longrightarrow>
             original_size (binary p') = original_size (binary p)"
    by (simp_all add: stub_def)
  have l: "unat sizeof_Elf32_Ehdr \<le> length elf32_header" "elf32_header ! EI_CLASS = 1"
    by (simp_all add: sizeof_Elf32_Ehdr_def elf32_header_def EI_CLASS_def)
  have i: "snd (init stub name elf32_header size0 COUNT_AUTO)
             = Inr (initial_parser stub name elf32_header size0 COUNT_AUTO)" for name size0
    by (simp add: init_dispatch l) (simp add: stub_def)
  have d: "parse_data stub elf32_header ''a.elf'' COUNT_AUTO
             = Inr (binary (initial_parser stub ''a.elf'' elf32_header (default_binary_size stub) COUNT_AUTO))"
    by (simp add: parse_data_def Parser_data_def i)
  have f: "parse_file stub ''a.elf'' COUNT_AUTO
             = Inr (binary (initial_parser stub ''a.elf'' elf32_header 52 COUNT_AUTO))"
  proof -
    have "base_Parser stub ''a.elf'' = Inr 52"
      by (simp add: stub_def file_bytes_def elf32_header_def)
    moreover have "is_elf stub ''a.elf''"
      by (simp add: stub_def file_bytes_def elf32_header_def)
    moreover have "VectorStream_file stub ''a.elf'' = Inr elf32_header"
      by (simp add: stub_def file_bytes_def)
    moreover have "filename stub ''a.elf'' = ''a.elf''"
      by (simp add: stub_def)
    ultimately show ?thesis
      by (simp add: parse_file_def Parser_file_def i)
  qed
  from original_size_of_parse [OF k, THEN conjunct1, rule_format, OF d]
  have "original_size (binary (initial_parser stub ''a.elf'' elf32_header (default_binary_size stub) COUNT_AUTO))
          = default_binary_size stub" .
  moreover have "default_binary_size stub = 0"
    by (simp add: stub_def)
  moreover from original_size_of_parse [OF k, THEN conjunct2, rule_format, OF f]
  have "base_Parser stub ''a.elf'' = Inr (original_size (binary (initial_parser stub ''a.elf'' elf32_header 52 COUNT_AUTO)))" .
  then have "original_size (binary (initial_parser stub ''a.elf'' elf32_header 52 COUNT_AUTO)) = 52"
    by (simp add: stub_def file_bytes_def elf32_header_def)
  moreover have "length elf32_header = 52"
    by (simp add: elf32_header_def)
  ultimately show ?thesis
    by (simp add: d f)
qed

end
